theory Spec2Isabelle
  imports Complex_Main "HOL-Library.Sublist" "HOL-Library.Multiset" "HOL-Library.AList"
begin

section \<open>Text\<close>

text \<open>
  The application handles Python \<open>str\<close> values. A string is modelled as a list of
  characters in which the character numbered \<open>n\<close> stands for the code point \<open>n\<close>, so
  the model covers text of code points 0 to 255; the library functions below are
  written out for that range.
\<close>

definition py_isspace :: "char \<Rightarrow> bool" where
  \<comment> \<open>\<open>str.isspace\<close> on one character: TAB..CR, FS..US, space, NEL, NBSP.\<close>
  "py_isspace c = ((of_char c :: nat) \<in> {9, 10, 11, 12, 13, 28, 29, 30, 31, 32, 133, 160})"

definition py_strip :: "string \<Rightarrow> string" where
  \<comment> \<open>\<open>s.strip()\<close>\<close>
  "py_strip s = rev (dropWhile py_isspace (rev (dropWhile py_isspace s)))"

definition py_lower_char :: "char \<Rightarrow> char" where
  "py_lower_char c =
     (let n = (of_char c :: nat)
      in if (65 \<le> n \<and> n \<le> 90) \<or> (192 \<le> n \<and> n \<le> 222 \<and> n \<noteq> 215)
         then char_of (n + 32) else c)"

definition py_lower :: "string \<Rightarrow> string" where
  \<comment> \<open>\<open>s.lower()\<close>\<close>
  "py_lower s = map py_lower_char s"

definition sql_lower_char :: "char \<Rightarrow> char" where
  "sql_lower_char c =
     (let n = (of_char c :: nat) in if 65 \<le> n \<and> n \<le> 90 then char_of (n + 32) else c)"

definition sql_lower :: "string \<Rightarrow> string" where
  \<comment> \<open>The database's \<open>lower()\<close>: it folds the letters A to Z only.\<close>
  "sql_lower s = map sql_lower_char s"

fun like :: "string \<Rightarrow> string \<Rightarrow> bool" where
  \<comment> \<open>\<open>text LIKE pattern\<close>, pattern first: \<open>%\<close> stands for any run of characters,
      \<open>_\<close> for exactly one; there is no escape character.\<close>
  "like [] [] = True"
| "like [] (c # cs) = False"
| "like (p # ps) [] = (p = CHR ''%'' \<and> like ps [])"
| "like (p # ps) (c # cs) =
     (if p = CHR ''%'' then like ps (c # cs) \<or> like (p # ps) cs
      else (p = CHR ''_'' \<or> p = c) \<and> like ps cs)"

definition ilike :: "string \<Rightarrow> string \<Rightarrow> bool" where
  \<comment> \<open>\<open>column.ilike(pattern)\<close>, rendered as \<open>lower(column) LIKE lower(pattern)\<close>;
      the first argument is the column's value.\<close>
  "ilike s pat = like (sql_lower pat) (sql_lower s)"

section \<open>Library functions taken as parameters\<close>

text \<open>
  Functions of the Python runtime and of the web framework that the application calls.
  \<open>py_float\<close> and \<open>py_int\<close> are \<open>float(s)\<close> and \<open>int(s)\<close>, with \<open>None\<close> for
  \<open>ValueError\<close>; a float is modelled by the real number it denotes (the parser yields
  finite values only).
\<close>

record env =
  py_float :: "string \<Rightarrow> real option"
  py_int :: "string \<Rightarrow> int option"
  secure_filename :: "string \<Rightarrow> string"
  generate_password_hash :: "string \<Rightarrow> string"

section \<open>Models\<close>

text \<open>
  The columns of the two tables, under the names of the source; \<open>id\<close>, \<open>name\<close>, \<open>email\<close>
  and \<open>role\<close> of \<open>User\<close> are \<open>user_id\<close>, \<open>user_name\<close>, \<open>user_email\<close> and \<open>user_role\<close>
  here, and \<open>id\<close> of \<open>Property\<close> is \<open>prop_id\<close>. A column that the routes may leave
  without a value is an option.
\<close>

record user =
  user_id :: nat
  user_name :: string
  user_email :: string
  password_hash :: string
  user_role :: string

record property =
  prop_id :: nat
  title :: string
  description :: "string option"
  location :: string
  property_type :: string
  sale_or_rent :: string
  price :: "real option"
  rent :: "real option"
  area :: "real option"
  rooms :: "int option"
  contact :: string
  image_filename :: "string option"
  gmap_link :: string
  owner_id :: nat

text \<open>
  The state of the application: the two tables, the upload folder (file name to
  content), and the session of the one client whose requests are modelled, with the
  notices flashed to it.
\<close>

record state =
  users :: "user list"
  props :: "property list"
  uploads :: "(string \<times> string) list"
  session_user_id :: "nat option"
  flashes :: "(string \<times> string) list"

datatype endpoint = Index | Login | Register | Properties | Property_detail nat

datatype failure =
  BadRequestKeyError string
  | ValueError
  | AttributeError
  | OSError
  | NotFound
  | Forbidden

datatype http_method = GET | POST

record file_storage =
  filename :: string
  content :: string

record request =
  req_method :: http_method
  form :: "string \<rightharpoonup> string"
  files_image :: "file_storage option"

datatype response =
  Redirect endpoint
  | Render string "property list" "user option"
  | Failed failure

section \<open>Helpers\<close>

definition query_get :: "('a \<Rightarrow> nat) \<Rightarrow> 'a list \<Rightarrow> nat \<Rightarrow> 'a option" where
  \<comment> \<open>\<open>Model.query.get(key)\<close>: the row with that primary key.\<close>
  "query_get key rows k = find (\<lambda>r. key r = k) rows"

definition current_user :: "state \<Rightarrow> user option" where
  "current_user st =
     (case session_user_id st of
        None \<Rightarrow> None
      | Some uid \<Rightarrow> if uid \<noteq> 0 then query_get user_id (users st) uid else None)"

definition flash :: "string \<Rightarrow> string \<Rightarrow> state \<Rightarrow> state" where
  "flash msg category st = st\<lparr>flashes := flashes st @ [(msg, category)]\<rparr>"

definition login_required :: "state \<Rightarrow> bool \<times> state" where
  "login_required st =
     (if current_user st = None then (False, flash ''Please log in first.'' ''warning'' st)
      else (True, st))"

section \<open>Listing search\<close>

definition args_get :: "(string \<rightharpoonup> string) \<Rightarrow> string \<Rightarrow> string \<Rightarrow> string" where
  \<comment> \<open>\<open>request.args.get(key, default)\<close>\<close>
  "args_get args k d = (case args k of None \<Rightarrow> d | Some v \<Rightarrow> v)"

definition args_get_typed :: "(string \<rightharpoonup> string) \<Rightarrow> string \<Rightarrow> (string \<Rightarrow> 'a option) \<Rightarrow> 'a option" where
  \<comment> \<open>\<open>request.args.get(key, type=f)\<close>: a value that \<open>f\<close> rejects gives the default, \<open>None\<close>.\<close>
  "args_get_typed args k f = (case args k of None \<Rightarrow> None | Some v \<Rightarrow> f v)"

text \<open>
  SQL comparisons of a nullable column with a bound value: a comparison with \<open>NULL\<close> is not
  true, so \<open>filter\<close> drops the row.
\<close>

definition col_ge :: "('a::linorder) option \<Rightarrow> 'a \<Rightarrow> bool" where
  "col_ge c v = (case c of None \<Rightarrow> False | Some x \<Rightarrow> v \<le> x)"

definition col_le :: "('a::linorder) option \<Rightarrow> 'a \<Rightarrow> bool" where
  "col_le c v = (case c of None \<Rightarrow> False | Some x \<Rightarrow> x \<le> v)"

definition col_eq :: "'a option \<Rightarrow> 'a \<Rightarrow> bool" where
  "col_eq c v = (case c of None \<Rightarrow> False | Some x \<Rightarrow> x = v)"


definition filter_if :: "bool \<Rightarrow> ('a \<Rightarrow> bool) \<Rightarrow> 'a list \<Rightarrow> 'a list" where
  \<comment> \<open>\<open>if cond: query = query.filter(pred)\<close>\<close>
  "filter_if cond pred query = (if cond then filter pred query else query)"

definition filter_opt :: "'b option \<Rightarrow> ('b \<Rightarrow> 'a \<Rightarrow> bool) \<Rightarrow> 'a list \<Rightarrow> 'a list" where
  \<comment> \<open>\<open>if q is not None: query = query.filter(pred(q))\<close>\<close>
  "filter_opt q pred query = (case q of None \<Rightarrow> query | Some v \<Rightarrow> filter (pred v) query)"

definition order_by_id_desc :: "property list \<Rightarrow> property list" where
  "order_by_id_desc query = rev (sort_key prop_id query)"

definition properties_query :: "env \<Rightarrow> (string \<rightharpoonup> string) \<Rightarrow> property list \<Rightarrow> property list" where
  "properties_query E args table =
     (let q_location = py_strip (args_get args ''location'' []);
          q_type = args_get args ''type'' [];
          q_mode = args_get args ''mode'' [];
          q_min_price = args_get_typed args ''min_price'' (py_float E);
          q_max_price = args_get_typed args ''max_price'' (py_float E);
          q_min_rent = args_get_typed args ''min_rent'' (py_float E);
          q_max_rent = args_get_typed args ''max_rent'' (py_float E);
          q_min_area = args_get_typed args ''min_area'' (py_float E);
          q_max_area = args_get_typed args ''max_area'' (py_float E);
          q_rooms = args_get_typed args ''rooms'' (py_int E);
          query = table;
          query = filter_if (q_location \<noteq> [])
                    (\<lambda>p. ilike (location p) (''%'' @ q_location @ ''%'')) query;
          query = filter_if (q_type \<noteq> []) (\<lambda>p. property_type p = q_type) query;
          query = filter_if (q_mode \<noteq> []) (\<lambda>p. sale_or_rent p = q_mode) query;
          query = filter_opt q_min_price (\<lambda>v p. col_ge (price p) v) query;
          query = filter_opt q_max_price (\<lambda>v p. col_le (price p) v) query;
          query = filter_opt q_min_rent (\<lambda>v p. col_ge (rent p) v) query;
          query = filter_opt q_max_rent (\<lambda>v p. col_le (rent p) v) query;
          query = filter_opt q_min_area (\<lambda>v p. col_ge (area p) v) query;
          query = filter_opt q_max_area (\<lambda>v p. col_le (area p) v) query;
          query = filter_opt q_rooms (\<lambda>v p. col_eq (rooms p) v) query
      in order_by_id_desc query)"


section \<open>Media store\<close>

definition path_exists :: "(string \<times> string) list \<Rightarrow> string \<Rightarrow> bool" where
  \<comment> \<open>\<open>os.path.exists(os.path.join(UPLOAD_FOLDER, name))\<close>: a file of the folder, or,
      for the empty name, the folder itself.\<close>
  "path_exists fs name = (name = [] \<or> name \<in> set (map fst fs))"

fun rfind :: "char \<Rightarrow> string \<Rightarrow> int" where
  \<comment> \<open>\<open>s.rfind(c)\<close>: the index of the last occurrence, or -1.\<close>
  "rfind c [] = - 1"
| "rfind c (x # xs) =
     (let r = rfind c xs in if 0 \<le> r then r + 1 else if x = c then 0 else - 1)"

definition splitext :: "string \<Rightarrow> string \<times> string" where
  \<comment> \<open>\<open>os.path.splitext\<close>: split at the last dot that follows the last separator and
      is preceded, within the file name, by a character other than a dot.\<close>
  "splitext p =
     (let sepIndex = rfind CHR ''/'' p;
          dotIndex = rfind CHR ''.'' p
      in if dotIndex > sepIndex
            \<and> (\<exists>c \<in> set (drop (nat (sepIndex + 1)) (take (nat dotIndex) p)). c \<noteq> CHR ''.'')
         then (take (nat dotIndex) p, drop (nat dotIndex) p)
         else (p, []))"

function str_nat :: "nat \<Rightarrow> string" where
  \<comment> \<open>\<open>str(i)\<close> for a non-negative integer: its decimal digits.\<close>
  "str_nat n =
     (if n < 10 then [char_of (48 + n)] else str_nat (n div 10) @ [char_of (48 + n mod 10)])"
  by pat_completeness auto
termination
  by (relation "measure id") auto

declare str_nat.simps [simp del]

definition suffixed :: "string \<Rightarrow> string \<Rightarrow> nat \<Rightarrow> string" where
  \<comment> \<open>\<open>f"{base}_{i}{ext}"\<close>\<close>
  "suffixed base ext i = base @ ''_'' @ str_nat i @ ext"

function save_image_loop ::
  "(string \<times> string) list \<Rightarrow> string \<Rightarrow> string \<Rightarrow> string \<Rightarrow> nat \<Rightarrow> string" where
  \<comment> \<open>The \<open>while os.path.exists(path)\<close> loop of \<open>save_image\<close>, on the variables
      \<open>filename\<close> and \<open>i\<close>.\<close>
  "save_image_loop fs base ext name i =
     (if path_exists fs name then save_image_loop fs base ext (suffixed base ext i) (Suc i)
      else name)"
  by pat_completeness auto

text \<open>
  The loop ends: the suffixed names are pairwise different and the folder holds finitely
  many files, so the candidates still taken from \<open>i\<close> on get fewer with every round.
\<close>

lemma str_nat_not_Nil: "str_nat n \<noteq> []"
  by (subst str_nat.simps) simp

lemma digit_char_inj: "a < 10 \<Longrightarrow> b < 10 \<Longrightarrow> char_of (48 + a) = (char_of (48 + b) :: char) \<Longrightarrow> a = (b::nat)"
  by (simp add: char_of_eq_iff take_bit_eq_mod)

lemma str_nat_inj: "str_nat m = str_nat n \<Longrightarrow> m = n"
proof (induction m arbitrary: n rule: str_nat.induct)
  case (1 m)
  show ?case
  proof (cases "m < 10")
    case True
    then have m: "str_nat m = [char_of (48 + m)]" by (subst str_nat.simps) simp
    show ?thesis
    proof (cases "n < 10")
      case True
      then have "str_nat n = [char_of (48 + n)]" by (subst str_nat.simps) simp
      with m "1.prems" have "char_of (48 + m) = (char_of (48 + n) :: char)" by simp
      with \<open>m < 10\<close> True show ?thesis by (rule digit_char_inj)
    next
      case False
      then have "str_nat n = str_nat (n div 10) @ [char_of (48 + n mod 10)]"
        by (subst str_nat.simps) simp
      with m "1.prems" have "str_nat (n div 10) = []" by simp
      then show ?thesis by (simp add: str_nat_not_Nil)
    qed
  next
    case False
    then have m: "str_nat m = str_nat (m div 10) @ [char_of (48 + m mod 10)]"
      by (subst str_nat.simps) simp
    show ?thesis
    proof (cases "n < 10")
      case True
      then have "str_nat n = [char_of (48 + n)]" by (subst str_nat.simps) simp
      with m "1.prems" have "str_nat (m div 10) = []" by simp
      then show ?thesis by (simp add: str_nat_not_Nil)
    next
      case nge: False
      then have "str_nat n = str_nat (n div 10) @ [char_of (48 + n mod 10)]"
        by (subst str_nat.simps) simp
      with m "1.prems" have eq: "str_nat (m div 10) = str_nat (n div 10)"
        and c: "char_of (48 + m mod 10) = (char_of (48 + n mod 10) :: char)" by simp_all
      from "1.IH"[OF False eq] have d: "m div 10 = n div 10" .
      have "m mod 10 = n mod 10" by (rule digit_char_inj[OF _ _ c]) simp_all
      with d show ?thesis by (metis div_mult_mod_eq)
    qed
  qed
qed

lemma suffixed_inj: "suffixed base ext i = suffixed base ext j \<Longrightarrow> i = j"
  by (simp add: suffixed_def str_nat_inj)

lemma suffixed_not_Nil: "suffixed base ext i \<noteq> []"
  by (simp add: suffixed_def)

lemma finite_taken: "finite {j. i \<le> j \<and> path_exists fs (suffixed base ext j)}"
proof -
  have "inj (suffixed base ext)" by (rule injI) (rule suffixed_inj)
  then have "finite (suffixed base ext -` set (map fst fs))"
    by (intro finite_vimageI) simp_all
  moreover have "{j. i \<le> j \<and> path_exists fs (suffixed base ext j)} \<subseteq> suffixed base ext -` set (map fst fs)"
    by (auto simp: path_exists_def suffixed_not_Nil)
  ultimately show ?thesis by (rule rev_finite_subset)
qed

lemma taken_step:
  "{j. i \<le> j \<and> path_exists fs (suffixed base ext j)} =
     (if path_exists fs (suffixed base ext i) then {i} else {})
     \<union> {j. Suc i \<le> j \<and> path_exists fs (suffixed base ext j)}"
  by (auto simp: Suc_le_eq le_less)

lemma card_taken_step:
  "card {j. i \<le> j \<and> path_exists fs (suffixed base ext j)} =
     (if path_exists fs (suffixed base ext i) then 1 else 0)
     + card {j. Suc i \<le> j \<and> path_exists fs (suffixed base ext j)}"
proof -
  have "i \<notin> {j. Suc i \<le> j \<and> path_exists fs (suffixed base ext j)}" by simp
  then show ?thesis
    by (subst taken_step) (simp add: finite_taken)
qed

termination save_image_loop
proof (relation "measure (\<lambda>(fs, base, ext, name, i).
         2 * card {j. i \<le> j \<and> path_exists fs (suffixed base ext j)}
         + (if path_exists fs name then 1 else 0))")
  show "wf (measure (\<lambda>(fs, base, ext, name, i).
         2 * card {j. i \<le> j \<and> path_exists fs (suffixed base ext j)}
         + (if path_exists fs name then 1 else 0)))" by simp
next
  fix fs :: "(string \<times> string) list" and base ext name :: string and i :: nat
  assume "path_exists fs name"
  then show "((fs, base, ext, suffixed base ext i, Suc i), (fs, base, ext, name, i))
        \<in> measure (\<lambda>(fs, base, ext, name, i).
         2 * card {j. i \<le> j \<and> path_exists fs (suffixed base ext j)}
         + (if path_exists fs name then 1 else 0))"
    by (simp add: card_taken_step[of i])
qed

declare save_image_loop.simps [simp del]

definition save_image ::
  "env \<Rightarrow> file_storage option \<Rightarrow> (string \<times> string) list
     \<Rightarrow> string option \<times> (string \<times> string) list" where
  \<comment> \<open>Returns the stored name and the folder after \<open>file_storage.save(path)\<close>. A
      \<open>FileStorage\<close> is false when its file name is empty.\<close>
  "save_image E file_storage fs =
     (case file_storage of
        None \<Rightarrow> (None, fs)
      | Some f \<Rightarrow>
          if filename f = [] \<or> py_strip (filename f) = [] then (None, fs)
          else
            (let name = secure_filename E (filename f);
                 (base, ext) = splitext name;
                 name = save_image_loop fs base ext name 1
             in (Some name, AList.update name (content f) fs)))"

definition os_remove :: "(string \<times> string) list \<Rightarrow> string \<Rightarrow> failure + (string \<times> string) list" where
  \<comment> \<open>\<open>os.remove\<close> of a file of the upload folder; a missing file raises \<open>OSError\<close>.\<close>
  "os_remove fs name =
     (if name \<in> set (map fst fs) then Inr (AList.delete name fs) else Inl OSError)"

section \<open>Map links\<close>

definition hex_digit :: "nat \<Rightarrow> char" where
  "hex_digit d = (if d < 10 then char_of (48 + d) else char_of (55 + d))"

definition percent_byte :: "nat \<Rightarrow> string" where
  \<comment> \<open>\<open>'%{:02X}'.format(b)\<close>\<close>
  "percent_byte b = [CHR ''%'', hex_digit (b div 16), hex_digit (b mod 16)]"

definition utf8_bytes :: "char \<Rightarrow> nat list" where
  \<comment> \<open>The UTF-8 encoding of a code point below 256.\<close>
  "utf8_bytes c =
     (let n = (of_char c :: nat) in if n < 128 then [n] else [192 + n div 64, 128 + n mod 64])"

definition always_safe :: "char \<Rightarrow> bool" where
  \<comment> \<open>Letters, digits and \<open>_.-~\<close>.\<close>
  "always_safe c =
     (let n = (of_char c :: nat)
      in (65 \<le> n \<and> n \<le> 90) \<or> (97 \<le> n \<and> n \<le> 122) \<or> (48 \<le> n \<and> n \<le> 57)
         \<or> c \<in> set ''_.-~'')"

definition quote_plus :: "string \<Rightarrow> string" where
  \<comment> \<open>\<open>urllib.parse.quote_plus\<close>: a space becomes \<open>+\<close>, a safe character stays, every
      other character becomes the escapes of its UTF-8 bytes.\<close>
  "quote_plus s =
     concat (map (\<lambda>c. if c = CHR '' '' then ''+''
                       else if always_safe c then [c]
                       else concat (map percent_byte (utf8_bytes c))) s)"

definition build_gmaps_link :: "string \<Rightarrow> string" where
  "build_gmaps_link loc = ''https://www.google.com/maps/search/?api=1&query='' @ quote_plus loc"

section \<open>Forms\<close>

definition form_item :: "(string \<rightharpoonup> string) \<Rightarrow> string \<Rightarrow> failure + string" where
  \<comment> \<open>\<open>request.form[key]\<close>: a missing key is a bad request.\<close>
  "form_item f k = (case f k of None \<Rightarrow> Inl (BadRequestKeyError k) | Some v \<Rightarrow> Inr v)"

definition form_get :: "(string \<rightharpoonup> string) \<Rightarrow> string \<Rightarrow> string \<Rightarrow> string" where
  \<comment> \<open>\<open>request.form.get(key, default)\<close>\<close>
  "form_get f k d = (case f k of None \<Rightarrow> d | Some v \<Rightarrow> v)"

definition form_number :: "(string \<rightharpoonup> string) \<Rightarrow> string \<Rightarrow> (string \<Rightarrow> 'a option) \<Rightarrow> failure + 'a option" where
  \<comment> \<open>\<open>conv(request.form[key]) if request.form.get(key) else None\<close>\<close>
  "form_number f k conv =
     (case f k of
        None \<Rightarrow> Inr None
      | Some v \<Rightarrow>
          if v = [] then Inr None
          else (case conv v of None \<Rightarrow> Inl ValueError | Some x \<Rightarrow> Inr (Some x)))"

definition and_then :: "failure + 'a \<Rightarrow> ('a \<Rightarrow> failure + 'b) \<Rightarrow> failure + 'b" where
  \<comment> \<open>Sequencing of statements that may raise.\<close>
  "and_then r k = (case r of Inl e \<Rightarrow> Inl e | Inr v \<Rightarrow> k v)"

definition read_listing_form :: "env \<Rightarrow> (string \<rightharpoonup> string) \<Rightarrow> property \<Rightarrow> failure + property" where
  \<comment> \<open>The ten assignments from the form that \<open>add_property\<close> and \<open>edit_property\<close> both
      make, in their order; the other fields of the row are kept.\<close>
  "read_listing_form E f p =
     and_then (form_item f ''title'') (\<lambda>v_title.
     and_then (Inr (f ''description'')) (\<lambda>v_description.
     and_then (form_item f ''location'') (\<lambda>v_location.
     and_then (form_item f ''property_type'') (\<lambda>v_property_type.
     and_then (form_item f ''sale_or_rent'') (\<lambda>v_sale_or_rent.
     and_then (form_number f ''area'' (py_float E)) (\<lambda>v_area.
     and_then (form_number f ''price'' (py_float E)) (\<lambda>v_price.
     and_then (form_number f ''rent'' (py_float E)) (\<lambda>v_rent.
     and_then (form_number f ''rooms'' (py_int E)) (\<lambda>v_rooms.
     and_then (form_item f ''contact'') (\<lambda>v_contact.
       Inr (p\<lparr>title := v_title, description := v_description, location := v_location,
               property_type := v_property_type, sale_or_rent := v_sale_or_rent,
               area := v_area, price := v_price, rent := v_rent, rooms := v_rooms,
               contact := v_contact\<rparr>)))))))))))"

definition next_id :: "nat list \<Rightarrow> nat" where
  \<comment> \<open>The primary key the database gives a new row: one more than the largest in use.\<close>
  "next_id ids = Suc (fold max ids 0)"

definition blank_property :: property where
  "blank_property =
     \<lparr>prop_id = 0, title = [], description = None, location = [], property_type = [],
      sale_or_rent = [], price = None, rent = None, area = None, rooms = None,
      contact = [], image_filename = None, gmap_link = [], owner_id = 0\<rparr>"

section \<open>Routes: registration\<close>

definition register :: "env \<Rightarrow> request \<Rightarrow> state \<Rightarrow> response \<times> state" where
  "register E req st =
     (if req_method req = POST then
        (case form_item (form req) ''name'' of
           Inl e \<Rightarrow> (Failed e, st)
         | Inr v_name \<Rightarrow>
        (case form_item (form req) ''email'' of
           Inl e \<Rightarrow> (Failed e, st)
         | Inr v_email \<Rightarrow>
        (case form_item (form req) ''password'' of
           Inl e \<Rightarrow> (Failed e, st)
         | Inr password \<Rightarrow>
           (let name = py_strip v_name;
                email = py_lower (py_strip v_email);
                role = form_get (form req) ''role'' ''owner''
            in if name = [] \<or> email = [] \<or> password = [] then
                 (Redirect Register, flash ''All fields are required.'' ''danger'' st)
               else if find (\<lambda>u. user_email u = email) (users st) \<noteq> None then
                 (Redirect Register, flash ''Email already registered.'' ''warning'' st)
               else
                 (let u = \<lparr>user_id = next_id (map user_id (users st)), user_name = name,
                           user_email = email,
                           password_hash = generate_password_hash E password,
                           user_role = role\<rparr>
                  in (Redirect Login,
                      flash ''Registration successful. Please log in.'' ''success''
                        (st\<lparr>users := users st @ [u]\<rparr>)))))))
      else (Render ''register.html'' [] (current_user st), st))"

section \<open>Routes: listings\<close>

definition add_property :: "env \<Rightarrow> request \<Rightarrow> state \<Rightarrow> response \<times> state" where
  "add_property E req st =
     (let (ok, st1) = login_required st
      in if \<not> ok then (Redirect Login, st1)
         else if req_method req = POST then
           (case read_listing_form E (form req) blank_property of
              Inl e \<Rightarrow> (Failed e, st)
            | Inr p \<Rightarrow>
                (let v_gmap_link = py_strip (form_get (form req) ''gmap_link'' []);
                     v_gmap_link = (if v_gmap_link = [] then build_gmaps_link (location p)
                                    else v_gmap_link);
                     (v_image_filename, fs) = save_image E (files_image req) (uploads st)
                 in (case current_user st of
                       None \<Rightarrow> (Failed AttributeError, st\<lparr>uploads := fs\<rparr>)
                     | Some u \<Rightarrow>
                         (Redirect Properties,
                          flash ''Property added!'' ''success''
                            (st\<lparr>props := props st @
                                   [p\<lparr>prop_id := next_id (map prop_id (props st)),
                                      image_filename := v_image_filename,
                                      gmap_link := v_gmap_link,
                                      owner_id := user_id u\<rparr>],
                                 uploads := fs\<rparr>)))))
         else (Render ''add_property.html'' [] (current_user st), st))"

definition edit_property :: "env \<Rightarrow> nat \<Rightarrow> request \<Rightarrow> state \<Rightarrow> response \<times> state" where
  "edit_property E pid req st =
     (let (ok, st1) = login_required st
      in if \<not> ok then (Redirect Login, st1)
         else
           (case query_get prop_id (props st) pid of
              None \<Rightarrow> (Failed NotFound, st)
            | Some p \<Rightarrow>
           (case current_user st of
              None \<Rightarrow> (Failed AttributeError, st)
            | Some u \<Rightarrow>
                if owner_id p \<noteq> user_id u then (Failed Forbidden, st)
                else if req_method req = POST then
                  (case read_listing_form E (form req) p of
                     Inl e \<Rightarrow> (Failed e, st)
                   | Inr p1 \<Rightarrow>
                       (let v_gmap_link = py_strip (form_get (form req) ''gmap_link'' []);
                            p2 = p1\<lparr>gmap_link := (if v_gmap_link \<noteq> [] then v_gmap_link
                                                  else build_gmaps_link (location p1))\<rparr>;
                            img = files_image req;
                            (p3, fs) =
                              (case img of
                                 None \<Rightarrow> (p2, uploads st)
                               | Some f \<Rightarrow>
                                   if filename f \<noteq> [] \<and> py_strip (filename f) \<noteq> [] then
                                     (let (name, fs1) = save_image E img (uploads st)
                                      in (p2\<lparr>image_filename := name\<rparr>, fs1))
                                   else (p2, uploads st))
                        in (Redirect (Property_detail (prop_id p3)),
                            flash ''Property updated!'' ''success''
                              (st\<lparr>props := map (\<lambda>q. if prop_id q = prop_id p then p3 else q)
                                              (props st),
                                   uploads := fs\<rparr>))))
                else (Render ''edit_property.html'' [p] (Some u), st))))"

definition delete_property :: "nat \<Rightarrow> state \<Rightarrow> response \<times> state" where
  "delete_property pid st =
     (let (ok, st1) = login_required st
      in if \<not> ok then (Redirect Login, st1)
         else
           (case query_get prop_id (props st) pid of
              None \<Rightarrow> (Failed NotFound, st)
            | Some p \<Rightarrow>
           (case current_user st of
              None \<Rightarrow> (Failed AttributeError, st)
            | Some u \<Rightarrow>
                if owner_id p \<noteq> user_id u then (Failed Forbidden, st)
                else
                  (let fs =
                         (case image_filename p of
                            None \<Rightarrow> uploads st
                          | Some name \<Rightarrow>
                              if name = [] then uploads st
                              else (case os_remove (uploads st) name of
                                      Inl e \<Rightarrow> uploads st
                                    | Inr fs1 \<Rightarrow> fs1))
                   in (Redirect Properties,
                       flash ''Property deleted.'' ''danger''
                         (st\<lparr>props := filter (\<lambda>q. prop_id q \<noteq> prop_id p) (props st),
                              uploads := fs\<rparr>))))))"

section \<open>The search query as one condition\<close>

definition query_predicate :: "env \<Rightarrow> (string \<rightharpoonup> string) \<Rightarrow> property \<Rightarrow> bool" where
  \<comment> \<open>The conditions that \<open>properties_query\<close> adds to the query one after the other,
      as one \<open>WHERE\<close> clause; \<open>properties_query_filter\<close> proves the two equal.\<close>
  "query_predicate E args p =
     ((py_strip (args_get args ''location'' []) \<noteq> [] \<longrightarrow>
              ilike (location p) (''%'' @ py_strip (args_get args ''location'' []) @ ''%''))
         \<and> (args_get args ''type'' [] \<noteq> [] \<longrightarrow> property_type p = args_get args ''type'' [])
         \<and> (args_get args ''mode'' [] \<noteq> [] \<longrightarrow> sale_or_rent p = args_get args ''mode'' [])
         \<and> (case args_get_typed args ''min_price'' (py_float E) of
               None \<Rightarrow> True | Some v \<Rightarrow> col_ge (price p) v)
         \<and> (case args_get_typed args ''max_price'' (py_float E) of
               None \<Rightarrow> True | Some v \<Rightarrow> col_le (price p) v)
         \<and> (case args_get_typed args ''min_rent'' (py_float E) of
               None \<Rightarrow> True | Some v \<Rightarrow> col_ge (rent p) v)
         \<and> (case args_get_typed args ''max_rent'' (py_float E) of
               None \<Rightarrow> True | Some v \<Rightarrow> col_le (rent p) v)
         \<and> (case args_get_typed args ''min_area'' (py_float E) of
               None \<Rightarrow> True | Some v \<Rightarrow> col_ge (area p) v)
         \<and> (case args_get_typed args ''max_area'' (py_float E) of
               None \<Rightarrow> True | Some v \<Rightarrow> col_le (area p) v)
         \<and> (case args_get_typed args ''rooms'' (py_int E) of
               None \<Rightarrow> True | Some v \<Rightarrow> col_eq (rooms p) v))"

section \<open>The search contract, in the specification's words\<close>


section \<open>An instance for examples\<close>

text \<open>
  Concrete library functions for the examples below. On a plain decimal numeral, with or
  without a minus sign, \<open>float\<close> and \<open>int\<close> return its value, and so does this instance;
  the examples use it on such numerals and on texts that \<open>float\<close> and \<open>int\<close> reject
  (\<open>abc\<close>). \<open>secure_filename\<close> leaves a name of letters, digits and inner dots as it is.
\<close>

fun decimal_value :: "nat \<Rightarrow> string \<Rightarrow> nat option" where
  "decimal_value acc [] = Some acc"
| "decimal_value acc (c # cs) =
     (let n = (of_char c :: nat)
      in if 48 \<le> n \<and> n \<le> 57 then decimal_value (10 * acc + (n - 48)) cs else None)"

definition parse_decimal :: "string \<Rightarrow> int option" where
  "parse_decimal s =
     (case s of
        [] \<Rightarrow> None
      | c # cs \<Rightarrow>
          if c = CHR ''-'' then
            (if cs = [] then None else map_option (\<lambda>n. - int n) (decimal_value 0 cs))
          else map_option int (decimal_value 0 s))"

definition example_env :: env where
  "example_env =
     \<lparr>py_float = (\<lambda>s. map_option real_of_int (parse_decimal s)),
      py_int = parse_decimal,
      secure_filename = (\<lambda>s. s),
      generate_password_hash = (\<lambda>pw. ''hash:'' @ pw)\<rparr>"

definition example_owner :: user where
  "example_owner =
     \<lparr>user_id = 1, user_name = ''Demo Owner'', user_email = ''owner@x.com'',
      password_hash = ''hash:demo123'', user_role = ''owner''\<rparr>"

definition example_flat :: property where
  "example_flat =
     \<lparr>prop_id = 1, title = ''2BR Flat'', description = None, location = ''Lagos'',
      property_type = ''house'', sale_or_rent = ''rent'', price = None, rent = Some 500,
      area = None, rooms = Some 2, contact = ''owner@x.com'', image_filename = None,
      gmap_link = build_gmaps_link ''Lagos'', owner_id = 1\<rparr>"

definition example_plot :: property where
  "example_plot =
     \<lparr>prop_id = 2, title = ''Corner plot'', description = Some ''fenced'',
      location = ''Ikeja, Lagos'', property_type = ''land'', sale_or_rent = ''sale'',
      price = Some 90000, rent = None, area = Some 450, rooms = None,
      contact = ''owner@x.com'', image_filename = Some ''plot.jpg'',
      gmap_link = ''https://maps.example/plot'', owner_id = 1\<rparr>"

definition example_state :: state where
  "example_state =
     \<lparr>users = [example_owner], props = [example_flat, example_plot],
      uploads = [(''plot.jpg'', ''JPEG-BYTES'')], session_user_id = Some 1, flashes = []\<rparr>"

definition example_customer :: user where
  "example_customer =
     \<lparr>user_id = 2, user_name = ''Carol'', user_email = ''carol@x.com'',
      password_hash = ''hash:secret'', user_role = ''customer''\<rparr>"

definition example_state_customer :: state where
  \<comment> \<open>The example state with a second user, who is logged in.\<close>
  "example_state_customer =
     example_state\<lparr>users := [example_owner, example_customer], session_user_id := Some 2\<rparr>"

definition example_form :: "string \<rightharpoonup> string" where
  "example_form =
     [''title'' \<mapsto> ''Shed'', ''location'' \<mapsto> ''Ikeja, Lagos'', ''property_type'' \<mapsto> ''land'',
      ''sale_or_rent'' \<mapsto> ''sale'', ''contact'' \<mapsto> ''owner@x.com'']"

definition example_registration :: request where
  "example_registration =
     \<lparr>req_method = POST,
      form = [''name'' \<mapsto> ''Ann'', ''email'' \<mapsto> ''Ann@X.com'', ''password'' \<mapsto> ''pw1''],
      files_image = None\<rparr>"

definition example_registered :: state where
  \<comment> \<open>The example state after \<open>example_registration\<close>.\<close>
  "example_registered = snd (register example_env example_registration example_state)"

definition example_photo :: file_storage where
  "example_photo = \<lparr>filename = ''house.jpg'', content = ''PHOTO-1''\<rparr>"

definition example_photo_2 :: file_storage where
  "example_photo_2 = \<lparr>filename = ''house.jpg'', content = ''PHOTO-2''\<rparr>"

section \<open>Facts about pattern matching\<close>









section \<open>Facts about the search query\<close>

lemma filter_if_conv: "filter_if c P xs = filter (\<lambda>x. c \<longrightarrow> P x) xs"
  by (simp add: filter_if_def)

lemma filter_opt_conv:
  "filter_opt q P xs = filter (\<lambda>x. case q of None \<Rightarrow> True | Some v \<Rightarrow> P v x) xs"
  by (simp add: filter_opt_def split: option.split)

lemma properties_query_filter:
  "properties_query E args table = order_by_id_desc (filter (query_predicate E args) table)"
  unfolding properties_query_def Let_def filter_if_conv filter_opt_conv filter_filter
    query_predicate_def
  by (rule arg_cong[where f = order_by_id_desc], rule filter_cong[OF refl]) blast


lemma set_order_by_id_desc: "set (order_by_id_desc xs) = set xs"
  by (simp add: order_by_id_desc_def)



lemma query_predicate_bounds:
  assumes "query_predicate E args p"
  shows "args_get_typed args ''min_price'' (py_float E) = Some v \<Longrightarrow> col_ge (price p) v"
    and "args_get_typed args ''max_price'' (py_float E) = Some v \<Longrightarrow> col_le (price p) v"
    and "args_get_typed args ''min_rent'' (py_float E) = Some v \<Longrightarrow> col_ge (rent p) v"
    and "args_get_typed args ''max_rent'' (py_float E) = Some v \<Longrightarrow> col_le (rent p) v"
    and "args_get_typed args ''min_area'' (py_float E) = Some v \<Longrightarrow> col_ge (area p) v"
    and "args_get_typed args ''max_area'' (py_float E) = Some v \<Longrightarrow> col_le (area p) v"
    and "args_get_typed args ''rooms'' (py_int E) = Some n \<Longrightarrow> col_eq (rooms p) n"
  using assms by (simp_all add: query_predicate_def)



lemma args_get_typed_rejected:
  "f s = None \<Longrightarrow> args_get_typed (args(k \<mapsto> s)) k f = args_get_typed (args(k := None)) k f"
  by (simp add: args_get_typed_def)




section \<open>Claims about the listing search\<close>




text \<open>
  C2. A row of the table whose \<open>price\<close>, \<open>rent\<close>, \<open>area\<close> or \<open>rooms\<close> has no value is
  not in the result of a search that supplies a bound (for \<open>rooms\<close>: a value) for that
  field. A filter is supplied when its text is a number.
\<close>

theorem none_valued_field_excluded:
  assumes "p \<in> set table"
      and "(price p = None \<and> (args_get_typed args ''min_price'' (py_float E) \<noteq> None
                              \<or> args_get_typed args ''max_price'' (py_float E) \<noteq> None))
         \<or> (rent p = None \<and> (args_get_typed args ''min_rent'' (py_float E) \<noteq> None
                              \<or> args_get_typed args ''max_rent'' (py_float E) \<noteq> None))
         \<or> (area p = None \<and> (args_get_typed args ''min_area'' (py_float E) \<noteq> None
                              \<or> args_get_typed args ''max_area'' (py_float E) \<noteq> None))
         \<or> (rooms p = None \<and> args_get_typed args ''rooms'' (py_int E) \<noteq> None)"
  shows "p \<notin> set (properties_query E args table)"
proof -
  have "\<not> query_predicate E args p"
  proof
    assume q: "query_predicate E args p"
    note b = query_predicate_bounds[OF q]
    from assms(2) show False
    proof (elim disjE conjE)
      assume n: "price p = None" and "args_get_typed args ''min_price'' (py_float E) \<noteq> None"
      then obtain v where "args_get_typed args ''min_price'' (py_float E) = Some v" by auto
      from b(1)[OF this] n show False by (simp add: col_ge_def)
    next
      assume n: "price p = None" and "args_get_typed args ''max_price'' (py_float E) \<noteq> None"
      then obtain v where "args_get_typed args ''max_price'' (py_float E) = Some v" by auto
      from b(2)[OF this] n show False by (simp add: col_le_def)
    next
      assume n: "rent p = None" and "args_get_typed args ''min_rent'' (py_float E) \<noteq> None"
      then obtain v where "args_get_typed args ''min_rent'' (py_float E) = Some v" by auto
      from b(3)[OF this] n show False by (simp add: col_ge_def)
    next
      assume n: "rent p = None" and "args_get_typed args ''max_rent'' (py_float E) \<noteq> None"
      then obtain v where "args_get_typed args ''max_rent'' (py_float E) = Some v" by auto
      from b(4)[OF this] n show False by (simp add: col_le_def)
    next
      assume n: "area p = None" and "args_get_typed args ''min_area'' (py_float E) \<noteq> None"
      then obtain v where "args_get_typed args ''min_area'' (py_float E) = Some v" by auto
      from b(5)[OF this] n show False by (simp add: col_ge_def)
    next
      assume n: "area p = None" and "args_get_typed args ''max_area'' (py_float E) \<noteq> None"
      then obtain v where "args_get_typed args ''max_area'' (py_float E) = Some v" by auto
      from b(6)[OF this] n show False by (simp add: col_le_def)
    next
      assume n: "rooms p = None" and "args_get_typed args ''rooms'' (py_int E) \<noteq> None"
      then obtain v where "args_get_typed args ''rooms'' (py_int E) = Some v" by auto
      from b(7)[OF this] n show False by (simp add: col_eq_def)
    qed
  qed
  then show ?thesis
    by (simp add: properties_query_filter set_order_by_id_desc)
qed

text \<open>
  A witness for C2: the example flat has no price, and a search with
  \<open>min_price = 100\<close> does not return it.
\<close>

theorem none_valued_field_excluded_witness:
  "example_flat \<in> set (props example_state)
   \<and> price example_flat = None
   \<and> args_get_typed [''min_price'' \<mapsto> ''100''] ''min_price'' (py_float example_env) \<noteq> None
   \<and> example_flat \<notin> set (properties_query example_env [''min_price'' \<mapsto> ''100'']
                            (props example_state))"
proof -
  have h1: "example_flat \<in> set (props example_state)"
    by (simp add: example_state_def)
  have p: "price example_flat = None"
    by (simp add: example_flat_def)
  have q: "args_get_typed [''min_price'' \<mapsto> ''100''] ''min_price'' (py_float example_env) \<noteq> None"
    by (simp add: args_get_typed_def example_env_def parse_decimal_def)
  from none_valued_field_excluded[OF h1, of "[''min_price'' \<mapsto> ''100'']" example_env] p q
  have "example_flat \<notin> set (properties_query example_env [''min_price'' \<mapsto> ''100'']
                            (props example_state))"
    by blast
  with h1 p q show ?thesis by blast
qed



section \<open>Facts about the routes\<close>

lemma login_required_Some: "current_user st = Some u \<Longrightarrow> login_required st = (True, st)"
  by (simp add: login_required_def)

lemma query_get_key: "query_get key rows k = Some r \<Longrightarrow> key r = k \<and> r \<in> set rows"
  by (auto simp: query_get_def find_Some_iff)

lemma delete_absent: "name \<notin> set (map fst fs) \<Longrightarrow> AList.delete name fs = fs"
  by (induction fs) auto

lemma remove_best_effort:
  "(case os_remove fs name of Inl e \<Rightarrow> fs | Inr fs1 \<Rightarrow> fs1) = AList.delete name fs"
  by (simp add: os_remove_def delete_absent)

section \<open>Claims about editing and deleting\<close>

text \<open>
  C5. When the logged-in user is not the owner of the listing, \<open>edit_property\<close> answers
  \<open>Forbidden\<close>, for either request method, and the state is the one before the
  request: no row, no file, no notice and no session value has changed.
\<close>

theorem edit_by_non_owner_forbidden:
  assumes "current_user st = Some b"
      and "query_get prop_id (props st) pid = Some p"
      and "owner_id p = user_id a"
      and "user_id b \<noteq> user_id a"
  shows "edit_property E pid req st = (Failed Forbidden, st)"
  using assms by (simp add: edit_property_def login_required_Some)

text \<open>
  A witness for C5: the customer of the example posts an edit of the owner's flat.
\<close>

theorem edit_by_non_owner_forbidden_witness:
  "current_user example_state_customer = Some example_customer
   \<and> query_get prop_id (props example_state_customer) 1 = Some example_flat
   \<and> owner_id example_flat = user_id example_owner
   \<and> user_id example_customer \<noteq> user_id example_owner
   \<and> edit_property example_env 1
        \<lparr>req_method = POST, form = [''title'' \<mapsto> ''Mine now''], files_image = None\<rparr>
        example_state_customer = (Failed Forbidden, example_state_customer)"
proof -
  have h1: "current_user example_state_customer = Some example_customer"
    by (simp add: current_user_def query_get_def example_state_customer_def example_state_def
        example_owner_def example_customer_def)
  have h2: "query_get prop_id (props example_state_customer) 1 = Some example_flat"
    by (simp add: query_get_def example_state_customer_def example_state_def example_flat_def)
  have h3: "owner_id example_flat = user_id example_owner"
    by (simp add: example_flat_def example_owner_def)
  have h4: "user_id example_customer \<noteq> user_id example_owner"
    by (simp add: example_customer_def example_owner_def)
  from edit_by_non_owner_forbidden[OF h1 h2 h3 h4] h1 h2 h3 h4 show ?thesis by blast
qed

text \<open>
  C6. When the owner deletes a listing, the request succeeds with the redirect to the
  listings, the row with that \<open>id\<close> is gone and every other row is kept. The upload
  folder is untouched when the listing names no image; when it names one, the folder
  afterwards is the folder without that file, whether \<open>os.remove\<close> removed it or
  raised because it was not there.
\<close>

theorem delete_by_owner:
  assumes "current_user st = Some u"
      and "query_get prop_id (props st) pid = Some p"
      and "owner_id p = user_id u"
  shows "fst (delete_property pid st) = Redirect Properties
       \<and> props (snd (delete_property pid st)) = filter (\<lambda>q. prop_id q \<noteq> pid) (props st)
       \<and> users (snd (delete_property pid st)) = users st
       \<and> uploads (snd (delete_property pid st)) =
            (case image_filename p of
               None \<Rightarrow> uploads st
             | Some name \<Rightarrow> if name = [] then uploads st else AList.delete name (uploads st))"
proof -
  have k: "prop_id p = pid" using assms(2) by (simp add: query_get_key)
  show ?thesis
    using assms k
    by (simp add: delete_property_def login_required_Some remove_best_effort flash_def
        split: option.split)
qed

text \<open>
  A witness for C6: the owner deletes the plot, whose image is the one stored file.
\<close>

theorem delete_by_owner_witness:
  "current_user example_state = Some example_owner
   \<and> query_get prop_id (props example_state) 2 = Some example_plot
   \<and> owner_id example_plot = user_id example_owner
   \<and> fst (delete_property 2 example_state) = Redirect Properties
   \<and> props (snd (delete_property 2 example_state)) = [example_flat]
   \<and> uploads (snd (delete_property 2 example_state)) = []"
proof -
  have h1: "current_user example_state = Some example_owner"
    by (simp add: current_user_def query_get_def example_state_def example_owner_def)
  have h2: "query_get prop_id (props example_state) 2 = Some example_plot"
    by (simp add: query_get_def example_state_def example_flat_def example_plot_def)
  have h3: "owner_id example_plot = user_id example_owner"
    by (simp add: example_plot_def example_owner_def)
  have i: "image_filename example_plot = Some ''plot.jpg''"
    by (simp add: example_plot_def)
  have f: "filter (\<lambda>q. prop_id q \<noteq> 2) (props example_state) = [example_flat]"
    by (simp add: example_state_def example_flat_def example_plot_def)
  have u: "AList.delete ''plot.jpg'' (uploads example_state) = []"
    by (simp add: example_state_def)
  from delete_by_owner[OF h1 h2 h3] h1 h2 h3 show ?thesis
    unfolding i f by (simp add: u)
qed

section \<open>Facts about registration\<close>

lemma register_Login:
  assumes "register E r st = (Redirect Login, st1)"
  shows "\<exists>n e pw. form r ''name'' = Some n \<and> form r ''email'' = Some e
           \<and> form r ''password'' = Some pw
           \<and> py_lower (py_strip e) \<noteq> []
           \<and> find (\<lambda>u. user_email u = py_lower (py_strip e)) (users st) = None
           \<and> users st1 = users st @
               [\<lparr>user_id = next_id (map user_id (users st)), user_name = py_strip n,
                 user_email = py_lower (py_strip e),
                 password_hash = generate_password_hash E pw,
                 user_role = form_get (form r) ''role'' ''owner''\<rparr>]"
  using assms
  by (auto simp: register_def form_item_def Let_def flash_def
      split: if_splits option.splits)

lemma register_taken:
  assumes "find (\<lambda>u. user_email u = py_lower (py_strip e)) (users st) \<noteq> None"
      and "form r ''email'' = Some e"
  shows "users (snd (register E r st)) = users st"
  using assms
  by (simp add: register_def form_item_def Let_def flash_def split: option.splits)

lemma register_conflict:
  assumes "find (\<lambda>u. user_email u = py_lower (py_strip e)) (users st) \<noteq> None"
      and "req_method r = POST"
      and "form r ''email'' = Some e" "form r ''name'' = Some n" "form r ''password'' = Some pw"
      and "py_strip n \<noteq> []" "py_lower (py_strip e) \<noteq> []" "pw \<noteq> []"
  shows "register E r st = (Redirect Register, flash ''Email already registered.'' ''warning'' st)"
  using assms by (simp add: register_def form_item_def Let_def)

section \<open>Claims about registration\<close>

text \<open>
  C8, as the code has it. After a registration that succeeded, a second request whose
  email is the same once trimmed and lower-cased adds no user, whatever else it holds,
  and the user of the first registration is the only row with that email. When the second
  request is a post with a name that is not blank and a password that is not empty, it is
  answered with the notice "Email already registered." and the redirect to the
  registration form.
\<close>

theorem second_registration_rejected:
  assumes "register E r1 st = (Redirect Login, st1)"
      and "form r1 ''email'' = Some e1"
      and "form r2 ''email'' = Some e2"
      and "py_lower (py_strip e2) = py_lower (py_strip e1)"
  shows "users (snd (register E r2 st1)) = users st1
       \<and> (\<exists>u. users st1 = users st @ [u]
              \<and> filter (\<lambda>x. user_email x = py_lower (py_strip e1))
                   (users (snd (register E r2 st1))) = [u])
       \<and> (\<forall>n pw. req_method r2 = POST \<and> form r2 ''name'' = Some n \<and> py_strip n \<noteq> []
              \<and> form r2 ''password'' = Some pw \<and> pw \<noteq> []
            \<longrightarrow> register E r2 st1
                  = (Redirect Register, flash ''Email already registered.'' ''warning'' st1))"
proof -
  from register_Login[OF assms(1)] assms(2) obtain u
    where ne: "py_lower (py_strip e1) \<noteq> []"
      and free: "find (\<lambda>x. user_email x = py_lower (py_strip e1)) (users st) = None"
      and u: "users st1 = users st @ [u]"
      and eu: "user_email u = py_lower (py_strip e1)"
    by auto
  have taken: "find (\<lambda>x. user_email x = py_lower (py_strip e2)) (users st1) \<noteq> None"
    unfolding assms(4) u using eu by (auto simp: find_None_iff)
  have same: "users (snd (register E r2 st1)) = users st1"
    by (rule register_taken[OF taken assms(3)])
  have "filter (\<lambda>x. user_email x = py_lower (py_strip e1)) (users st) = []"
    using free by (simp add: find_None_iff filter_empty_conv)
  then have only: "filter (\<lambda>x. user_email x = py_lower (py_strip e1)) (users st1) = [u]"
    unfolding u using eu by simp
  have conflict: "register E r2 st1
        = (Redirect Register, flash ''Email already registered.'' ''warning'' st1)"
    if "req_method r2 = POST" "form r2 ''name'' = Some n" "py_strip n \<noteq> []"
       "form r2 ''password'' = Some pw" "pw \<noteq> []" for n pw
    using register_conflict[OF taken that(1) assms(3) that(2) that(4) that(3) _ that(5)] ne
    by (simp add: assms(4))
  from same only u conflict show ?thesis by auto
qed

text \<open>
  A witness for C8: Ann registers with \<open>Ann@X.com\<close>, then Bob tries \<open>ann@x.COM\<close> with
  spaces around it.
\<close>

theorem second_registration_rejected_witness:
  "register example_env example_registration example_state = (Redirect Login, example_registered)
   \<and> py_lower (py_strip '' ann@x.COM '') = py_lower (py_strip ''Ann@X.com'')
   \<and> users (snd (register example_env
        \<lparr>req_method = POST,
         form = [''name'' \<mapsto> ''Bob'', ''email'' \<mapsto> '' ann@x.COM '', ''password'' \<mapsto> ''pw2''],
         files_image = None\<rparr> example_registered)) = users example_registered
   \<and> map user_email (users example_registered) = [''owner@x.com'', ''ann@x.com'']
   \<and> register example_env
        \<lparr>req_method = POST,
         form = [''name'' \<mapsto> ''Bob'', ''email'' \<mapsto> '' ann@x.COM '', ''password'' \<mapsto> ''pw2''],
         files_image = None\<rparr> example_registered
       = (Redirect Register, flash ''Email already registered.'' ''warning'' example_registered)"
proof -
  let ?r2 = "\<lparr>req_method = POST,
         form = [''name'' \<mapsto> ''Bob'', ''email'' \<mapsto> '' ann@x.COM '', ''password'' \<mapsto> ''pw2''],
         files_image = None\<rparr>"
  have h1: "register example_env example_registration example_state
              = (Redirect Login, example_registered)"
    unfolding example_registered_def by code_simp
  have h2: "form example_registration ''email'' = Some ''Ann@X.com''"
    by (simp add: example_registration_def)
  have h3: "form ?r2 ''email'' = Some '' ann@x.COM ''" by simp
  have h4: "py_lower (py_strip '' ann@x.COM '') = py_lower (py_strip ''Ann@X.com'')"
    by code_simp
  have m: "map user_email (users example_registered) = [''owner@x.com'', ''ann@x.com'']"
    unfolding example_registered_def by code_simp
  have n: "py_strip ''Bob'' \<noteq> []" by code_simp
  note t = second_registration_rejected[OF h1 h2 h3 h4]
  from t have a: "users (snd (register example_env ?r2 example_registered))
                    = users example_registered"
    by (rule conjunct1)
  from t have c0: "\<forall>n pw. req_method ?r2 = POST \<and> form ?r2 ''name'' = Some n \<and> py_strip n \<noteq> []
              \<and> form ?r2 ''password'' = Some pw \<and> pw \<noteq> []
            \<longrightarrow> register example_env ?r2 example_registered
                  = (Redirect Register,
                     flash ''Email already registered.'' ''warning'' example_registered)"
    by (rule conjunct2[THEN conjunct2])
  have c: "register example_env ?r2 example_registered
       = (Redirect Register, flash ''Email already registered.'' ''warning'' example_registered)"
    using c0[rule_format, of "''Bob''" "''pw2''"] n by simp
  from h1 h4 a m c show ?thesis by (intro conjI)
qed

text \<open>
  C8 as stated fails for a second attempt that leaves the password empty: the fields are
  checked before the email is looked up, so the answer is the notice "All fields are
  required." and not the one of the conflict.
\<close>

theorem second_registration_counterexample:
  "register example_env example_registration example_state = (Redirect Login, example_registered)
   \<and> flashes (snd (register example_env
        \<lparr>req_method = POST,
         form = [''name'' \<mapsto> ''Bob'', ''email'' \<mapsto> ''Ann@X.com'', ''password'' \<mapsto> []],
         files_image = None\<rparr> example_registered))
       = [(''Registration successful. Please log in.'', ''success''),
          (''All fields are required.'', ''danger'')]
   \<and> (''Email already registered.'', ''warning'')
        \<notin> set (flashes (snd (register example_env
        \<lparr>req_method = POST,
         form = [''name'' \<mapsto> ''Bob'', ''email'' \<mapsto> ''Ann@X.com'', ''password'' \<mapsto> []],
         files_image = None\<rparr> example_registered)))"
  unfolding example_registered_def by code_simp

text \<open>
  C9 on the code: a registration whose form carries the role \<open>admin\<close> stores a user
  with that role, which is neither \<open>owner\<close> nor \<open>customer\<close>. A registration whose
  form carries no role stores the role \<open>owner\<close>.
\<close>

theorem register_stores_role_unvalidated:
  "users (snd (register example_env
       \<lparr>req_method = POST,
        form = [''name'' \<mapsto> ''Eve'', ''email'' \<mapsto> ''Eve@X.com'', ''password'' \<mapsto> ''pw'',
                ''role'' \<mapsto> ''admin''],
        files_image = None\<rparr> example_state))
     = [example_owner,
        \<lparr>user_id = 2, user_name = ''Eve'', user_email = ''eve@x.com'',
         password_hash = ''hash:pw'', user_role = ''admin''\<rparr>]
   \<and> ''admin'' \<notin> {''owner'', ''customer''}
   \<and> form example_registration ''role'' = None
   \<and> map user_role (users (snd (register example_env example_registration example_state)))
       = [''owner'', ''owner'']"
  by code_simp

section \<open>Facts about creating a listing\<close>

lemma and_then_Inr: "and_then r k = Inr y \<longleftrightarrow> (\<exists>v. r = Inr v \<and> k v = Inr y)"
  by (cases r) (simp_all add: and_then_def)

lemma and_then_Inl: "and_then r k = Inl e \<longleftrightarrow> r = Inl e \<or> (\<exists>v. r = Inr v \<and> k v = Inl e)"
  by (cases r) (simp_all add: and_then_def)

lemma form_number_rejected:
  "f k = Some s \<Longrightarrow> s \<noteq> [] \<Longrightarrow> conv s = None \<Longrightarrow> form_number f k conv = Inl ValueError"
  by (simp add: form_number_def)

lemma form_number_Inl: "form_number f k conv = Inl e \<Longrightarrow> e = ValueError"
  by (auto simp: form_number_def split: option.splits if_splits)

lemma form_item_Some: "f k = Some v \<Longrightarrow> form_item f k = Inr v"
  by (simp add: form_item_def)

lemma form_item_Inr: "form_item f k = Inr v \<longleftrightarrow> f k = Some v"
  by (simp add: form_item_def split: option.split)

lemma read_listing_form_Inr:
  assumes "read_listing_form E f p = Inr q"
  shows "f ''location'' = Some (location q)"
    and "f ''title'' = Some (title q)"
    and "\<exists>x. form_number f ''area'' (py_float E) = Inr x"
    and "\<exists>x. form_number f ''price'' (py_float E) = Inr x"
    and "\<exists>x. form_number f ''rent'' (py_float E) = Inr x"
    and "\<exists>x. form_number f ''rooms'' (py_int E) = Inr x"
  using assms unfolding read_listing_form_def and_then_Inr form_item_Inr
  by auto

lemma read_listing_form_rejected:
  assumes "(\<exists>s. f ''area'' = Some s \<and> s \<noteq> [] \<and> py_float E s = None)
         \<or> (\<exists>s. f ''price'' = Some s \<and> s \<noteq> [] \<and> py_float E s = None)
         \<or> (\<exists>s. f ''rent'' = Some s \<and> s \<noteq> [] \<and> py_float E s = None)
         \<or> (\<exists>s. f ''rooms'' = Some s \<and> s \<noteq> [] \<and> py_int E s = None)"
  shows "\<exists>e. read_listing_form E f p = Inl e"
proof (cases "read_listing_form E f p")
  case (Inl e)
  then show ?thesis by blast
next
  case (Inr q)
  from assms read_listing_form_Inr(3-6)[OF Inr] have False
    by (auto dest: form_number_rejected)
  then show ?thesis ..
qed

lemma read_listing_form_ValueError:
  assumes "read_listing_form E f p = Inl e"
      and "f ''title'' \<noteq> None" "f ''location'' \<noteq> None" "f ''property_type'' \<noteq> None"
          "f ''sale_or_rent'' \<noteq> None"
      and "(\<exists>s. f ''area'' = Some s \<and> s \<noteq> [] \<and> py_float E s = None)
         \<or> (\<exists>s. f ''price'' = Some s \<and> s \<noteq> [] \<and> py_float E s = None)
         \<or> (\<exists>s. f ''rent'' = Some s \<and> s \<noteq> [] \<and> py_float E s = None)
         \<or> (\<exists>s. f ''rooms'' = Some s \<and> s \<noteq> [] \<and> py_int E s = None)"
  shows "e = ValueError"
proof -
  from assms(2-5) obtain t l pt sr where k: "form_item f ''title'' = Inr t"
     "form_item f ''location'' = Inr l" "form_item f ''property_type'' = Inr pt"
     "form_item f ''sale_or_rent'' = Inr sr"
    by (auto simp: form_item_def)
  from assms(1) have
    "form_number f ''area'' (py_float E) = Inl e
     \<or> form_number f ''price'' (py_float E) = Inl e
     \<or> form_number f ''rent'' (py_float E) = Inl e
     \<or> form_number f ''rooms'' (py_int E) = Inl e
     \<or> ((\<exists>x. form_number f ''area'' (py_float E) = Inr x)
        \<and> (\<exists>x. form_number f ''price'' (py_float E) = Inr x)
        \<and> (\<exists>x. form_number f ''rent'' (py_float E) = Inr x)
        \<and> (\<exists>x. form_number f ''rooms'' (py_int E) = Inr x))"
    unfolding read_listing_form_def and_then_Inl k by auto
  with assms(6) show ?thesis
    by (auto dest: form_number_Inl form_number_rejected)
qed

lemma add_property_failed:
  "current_user st = Some u \<Longrightarrow> req_method req = POST \<Longrightarrow>
   read_listing_form E (form req) blank_property = Inl e \<Longrightarrow>
   add_property E req st = (Failed e, st)"
  by (simp add: add_property_def login_required_Some)

lemma add_property_Redirect_Properties:
  assumes "fst (add_property E req st) = Redirect Properties"
  shows "\<exists>p u. read_listing_form E (form req) blank_property = Inr p
         \<and> current_user st = Some u
         \<and> props (snd (add_property E req st)) = props st @
             [p\<lparr>prop_id := next_id (map prop_id (props st)),
                image_filename := fst (save_image E (files_image req) (uploads st)),
                gmap_link := (if py_strip (form_get (form req) ''gmap_link'' []) = []
                              then build_gmaps_link (location p)
                              else py_strip (form_get (form req) ''gmap_link'' [])),
                owner_id := user_id u\<rparr>]"
proof (cases "current_user st")
  case None
  with assms show ?thesis
    by (simp add: add_property_def login_required_def)
next
  case (Some u)
  note l = login_required_Some[OF Some]
  show ?thesis
  proof (cases "req_method req")
    case GET
    with assms Some l show ?thesis by (simp add: add_property_def)
  next
    case POST
    show ?thesis
    proof (cases "read_listing_form E (form req) blank_property")
      case (Inl e)
      with assms Some POST show ?thesis by (simp add: add_property_failed)
    next
      case (Inr p)
      with Some POST l show ?thesis
        by (simp add: add_property_def Let_def flash_def split: prod.split)
    qed
  qed
qed

section \<open>Claims about creating a listing\<close>

text \<open>
  C3, as the code has it. When a logged-in user posts the creation form and the text
  given for \<open>area\<close>, \<open>price\<close>, \<open>rent\<close> or \<open>rooms\<close> is not empty and is not a number,
  the request fails and the state is the one before it: no row is added and no file is
  stored. The failure is the \<open>ValueError\<close> of the conversion, which the route does not
  catch, whenever the four keys read before the numbers are in the form; a missing key
  among them fails the request earlier.
\<close>

theorem add_property_unparsable_number_fails:
  assumes "current_user st = Some u"
      and "req_method req = POST"
      and "(\<exists>s. form req ''area'' = Some s \<and> s \<noteq> [] \<and> py_float E s = None)
         \<or> (\<exists>s. form req ''price'' = Some s \<and> s \<noteq> [] \<and> py_float E s = None)
         \<or> (\<exists>s. form req ''rent'' = Some s \<and> s \<noteq> [] \<and> py_float E s = None)
         \<or> (\<exists>s. form req ''rooms'' = Some s \<and> s \<noteq> [] \<and> py_int E s = None)"
  shows "(\<exists>e. add_property E req st = (Failed e, st))
       \<and> (form req ''title'' \<noteq> None \<and> form req ''location'' \<noteq> None
            \<and> form req ''property_type'' \<noteq> None \<and> form req ''sale_or_rent'' \<noteq> None
          \<longrightarrow> add_property E req st = (Failed ValueError, st))"
proof -
  from read_listing_form_rejected[OF assms(3)] obtain e
    where e: "read_listing_form E (form req) blank_property = Inl e" by blast
  have r: "add_property E req st = (Failed e, st)"
    by (rule add_property_failed[OF assms(1,2) e])
  have "e = ValueError"
    if "form req ''title'' \<noteq> None" "form req ''location'' \<noteq> None"
       "form req ''property_type'' \<noteq> None" "form req ''sale_or_rent'' \<noteq> None"
    by (rule read_listing_form_ValueError[OF e that assms(3)])
  with r show ?thesis by blast
qed

text \<open>
  A witness for C3: the price \<open>abc\<close> in an otherwise complete form.
\<close>

theorem add_property_unparsable_number_fails_witness:
  "current_user example_state = Some example_owner
   \<and> (example_form(''price'' \<mapsto> ''abc'')) ''price'' = Some ''abc''
   \<and> py_float example_env ''abc'' = None
   \<and> add_property example_env
        \<lparr>req_method = POST, form = example_form(''price'' \<mapsto> ''abc''), files_image = None\<rparr>
        example_state = (Failed ValueError, example_state)"
proof -
  let ?req = "\<lparr>req_method = POST, form = example_form(''price'' \<mapsto> ''abc''), files_image = None\<rparr>"
  have h1: "current_user example_state = Some example_owner"
    by (simp add: current_user_def query_get_def example_state_def example_owner_def)
  have h2: "req_method ?req = POST" by simp
  have a: "py_float example_env ''abc'' = None"
    by (simp add: example_env_def parse_decimal_def)
  have h3: "(\<exists>s. form ?req ''area'' = Some s \<and> s \<noteq> [] \<and> py_float example_env s = None)
         \<or> (\<exists>s. form ?req ''price'' = Some s \<and> s \<noteq> [] \<and> py_float example_env s = None)
         \<or> (\<exists>s. form ?req ''rent'' = Some s \<and> s \<noteq> [] \<and> py_float example_env s = None)
         \<or> (\<exists>s. form ?req ''rooms'' = Some s \<and> s \<noteq> [] \<and> py_int example_env s = None)"
    using a by simp
  have k: "form ?req ''title'' \<noteq> None \<and> form ?req ''location'' \<noteq> None
            \<and> form ?req ''property_type'' \<noteq> None \<and> form ?req ''sale_or_rent'' \<noteq> None"
    by (simp add: example_form_def)
  from add_property_unparsable_number_fails[OF h1 h2 h3] k
  have "add_property example_env ?req example_state = (Failed ValueError, example_state)"
    by blast
  with h1 a show ?thesis by simp
qed

text \<open>
  C3 as stated fails: a creation form with an empty title, an empty contact and the
  price \<open>-5\<close> is accepted, and the new row holds the empty title and the negative price.
  The route has no check of its fields.
\<close>

theorem add_property_validation_counterexample:
  "fst (add_property example_env
        \<lparr>req_method = POST,
         form = example_form(''title'' \<mapsto> [], ''contact'' \<mapsto> [], ''price'' \<mapsto> ''-5''),
         files_image = None\<rparr> example_state) = Redirect Properties
   \<and> map title (props (snd (add_property example_env
        \<lparr>req_method = POST,
         form = example_form(''title'' \<mapsto> [], ''contact'' \<mapsto> [], ''price'' \<mapsto> ''-5''),
         files_image = None\<rparr> example_state))) = [''2BR Flat'', ''Corner plot'', []]
   \<and> map price (props (snd (add_property example_env
        \<lparr>req_method = POST,
         form = example_form(''title'' \<mapsto> [], ''contact'' \<mapsto> [], ''price'' \<mapsto> ''-5''),
         files_image = None\<rparr> example_state))) = [None, Some 90000, Some (- 5)]"
  by code_simp

text \<open>
  C4, as the code has it. A creation that succeeds appends one row. Its \<open>location\<close> is
  the one of the form. When the \<open>gmap_link\<close> of the form is absent, empty or only
  whitespace, the row's link is the maps-search address followed by the encoded
  location; otherwise it is the link of the form without its leading and trailing
  whitespace.
\<close>

theorem add_property_gmap_link:
  assumes "fst (add_property E req st) = Redirect Properties"
  shows "\<exists>p. props (snd (add_property E req st)) = props st @ [p]
           \<and> form req ''location'' = Some (location p)
           \<and> gmap_link p =
               (if py_strip (form_get (form req) ''gmap_link'' []) = []
                then ''https://www.google.com/maps/search/?api=1&query='' @ quote_plus (location p)
                else py_strip (form_get (form req) ''gmap_link'' []))"
  using add_property_Redirect_Properties[OF assms]
proof (elim exE conjE)
  fix p :: property and u :: user
  let ?g = "py_strip (form_get (form req) ''gmap_link'' [])"
  let ?row = "p\<lparr>prop_id := next_id (map prop_id (props st)),
                image_filename := fst (save_image E (files_image req) (uploads st)),
                gmap_link := (if ?g = [] then build_gmaps_link (location p) else ?g),
                owner_id := user_id u\<rparr>"
  assume r: "read_listing_form E (form req) blank_property = Inr p"
     and ps: "props (snd (add_property E req st)) = props st @ [?row]"
  have "form req ''location'' = Some (location ?row)"
    using read_listing_form_Inr(1)[OF r] by simp
  moreover have "gmap_link ?row =
      (if ?g = [] then ''https://www.google.com/maps/search/?api=1&query='' @ quote_plus (location ?row)
       else ?g)"
    by (simp add: build_gmaps_link_def)
  ultimately show ?thesis using ps by blast
qed

text \<open>
  A witness for C4: a link of three spaces, for the location "Ikeja, Lagos".
\<close>

theorem add_property_gmap_link_witness:
  "fst (add_property example_env
        \<lparr>req_method = POST, form = example_form(''gmap_link'' \<mapsto> ''   ''), files_image = None\<rparr>
        example_state) = Redirect Properties
   \<and> py_strip (form_get (example_form(''gmap_link'' \<mapsto> ''   '')) ''gmap_link'' []) = []
   \<and> (\<exists>p. props (snd (add_property example_env
        \<lparr>req_method = POST, form = example_form(''gmap_link'' \<mapsto> ''   ''), files_image = None\<rparr>
        example_state)) = props example_state @ [p]
         \<and> location p = ''Ikeja, Lagos''
         \<and> gmap_link p = ''https://www.google.com/maps/search/?api=1&query=Ikeja%2C+Lagos'')"
proof -
  let ?req = "\<lparr>req_method = POST, form = example_form(''gmap_link'' \<mapsto> ''   ''), files_image = None\<rparr>"
  have h: "fst (add_property example_env ?req example_state) = Redirect Properties"
    by code_simp
  have b: "py_strip (form_get (example_form(''gmap_link'' \<mapsto> ''   '')) ''gmap_link'' []) = []"
    by (simp add: form_get_def py_strip_def py_isspace_def)
  have q: "quote_plus ''Ikeja, Lagos'' = ''Ikeja%2C+Lagos''"
    by code_simp
  have "\<exists>p. props (snd (add_property example_env ?req example_state)) = props example_state @ [p]
         \<and> location p = ''Ikeja, Lagos''
         \<and> gmap_link p = ''https://www.google.com/maps/search/?api=1&query=Ikeja%2C+Lagos''"
    using add_property_gmap_link[OF h]
  proof (elim exE conjE)
    fix p :: property
    assume ps: "props (snd (add_property example_env ?req example_state)) = props example_state @ [p]"
       and l: "form ?req ''location'' = Some (location p)"
       and g: "gmap_link p =
               (if py_strip (form_get (form ?req) ''gmap_link'' []) = []
                then ''https://www.google.com/maps/search/?api=1&query='' @ quote_plus (location p)
                else py_strip (form_get (form ?req) ''gmap_link'' []))"
    from l have l': "location p = ''Ikeja, Lagos''"
      by (simp add: example_form_def)
    from g b have "gmap_link p = ''https://www.google.com/maps/search/?api=1&query=Ikeja%2C+Lagos''"
      by (simp add: l' q)
    with ps l' show ?thesis by blast
  qed
  with h b show ?thesis by blast
qed

text \<open>
  C4 as stated fails for a link given with spaces around it: the stored link is the
  trimmed one, not the text as given.
\<close>

theorem add_property_gmap_link_counterexample:
  "map gmap_link (props (snd (add_property example_env
        \<lparr>req_method = POST, form = example_form(''gmap_link'' \<mapsto> '' http://x ''),
         files_image = None\<rparr> example_state)))
     = [''https://www.google.com/maps/search/?api=1&query=Lagos'',
        ''https://maps.example/plot'', ''http://x'']
   \<and> ''http://x'' \<noteq> '' http://x ''"
  by code_simp

section \<open>Facts about the media store\<close>

lemma save_image_loop_result:
  "\<not> path_exists fs (save_image_loop fs base ext name i)
   \<and> (if path_exists fs name
      then \<exists>k\<ge>i. save_image_loop fs base ext name i = suffixed base ext k
                  \<and> (\<forall>j. i \<le> j \<and> j < k \<longrightarrow> path_exists fs (suffixed base ext j))
      else save_image_loop fs base ext name i = name)"
proof (induction fs base ext name i rule: save_image_loop.induct)
  case (1 fs base ext name i)
  show ?case
  proof (cases "path_exists fs name")
    case False
    then show ?thesis by (simp add: save_image_loop.simps[of fs base ext name i])
  next
    case True
    let ?r = "save_image_loop fs base ext (suffixed base ext i) (Suc i)"
    have eq: "save_image_loop fs base ext name i = ?r"
      using True by (simp add: save_image_loop.simps[of fs base ext name i])
    note IH = "1.IH"[OF True]
    have free: "\<not> path_exists fs ?r" using IH by blast
    have "\<exists>k\<ge>i. ?r = suffixed base ext k
                  \<and> (\<forall>j. i \<le> j \<and> j < k \<longrightarrow> path_exists fs (suffixed base ext j))"
    proof (cases "path_exists fs (suffixed base ext i)")
      case False
      with IH have "?r = suffixed base ext i" by simp
      then have "i \<le> i \<and> ?r = suffixed base ext i
                  \<and> (\<forall>j. i \<le> j \<and> j < i \<longrightarrow> path_exists fs (suffixed base ext j))" by auto
      then show ?thesis by blast
    next
      case taken: True
      with IH obtain k where k: "Suc i \<le> k" "?r = suffixed base ext k"
        "\<forall>j. Suc i \<le> j \<and> j < k \<longrightarrow> path_exists fs (suffixed base ext j)" by auto
      have "\<forall>j. i \<le> j \<and> j < k \<longrightarrow> path_exists fs (suffixed base ext j)"
      proof (intro allI impI)
        fix j assume "i \<le> j \<and> j < k"
        then consider "j = i" | "Suc i \<le> j \<and> j < k" by linarith
        then show "path_exists fs (suffixed base ext j)"
          using taken k(3) by cases auto
      qed
      with k(1,2) have "i \<le> k \<and> ?r = suffixed base ext k
          \<and> (\<forall>j. i \<le> j \<and> j < k \<longrightarrow> path_exists fs (suffixed base ext j))" by simp
      then show ?thesis by blast
    qed
    with free True show ?thesis unfolding eq by simp
  qed
qed

lemma splitext_append: "splitext p = (base, ext) \<Longrightarrow> base @ ext = p"
  by (auto simp: splitext_def Let_def split: if_splits)

lemma save_image_stored:
  assumes "filename f \<noteq> []" "py_strip (filename f) \<noteq> []"
      and "splitext (secure_filename E (filename f)) = (base, ext)"
  shows "save_image E (Some f) fs =
           (Some (save_image_loop fs base ext (secure_filename E (filename f)) 1),
            AList.update (save_image_loop fs base ext (secure_filename E (filename f)) 1)
              (content f) fs)"
  using assms by (simp add: save_image_def Let_def)

lemma path_exists_update:
  "path_exists (AList.update n c fs) m \<longleftrightarrow> m = n \<or> path_exists fs m"
  by (auto simp: path_exists_def dom_update)

lemma example_strip: "py_strip ''house.jpg'' = ''house.jpg''"
  by (simp add: py_strip_def py_isspace_def)

lemma example_suffixed: "suffixed ''house'' ''.jpg'' (Suc 0) = ''house_1.jpg''"
  by (subst suffixed_def, subst str_nat.simps)
     (simp add: char_of_def numeral_2_eq_2 bit_Suc_0_iff)

lemma example_loop_1:
  "save_image_loop [(''plot.jpg'', ''JPEG-BYTES'')] ''house'' ''.jpg'' ''house.jpg'' (Suc 0)
     = ''house.jpg''"
  by (subst save_image_loop.simps) (simp add: path_exists_def)

lemma example_loop_2:
  "save_image_loop [(''plot.jpg'', ''JPEG-BYTES''), (''house.jpg'', ''PHOTO-1'')]
     ''house'' ''.jpg'' ''house.jpg'' (Suc 0) = ''house_1.jpg''"
  apply (subst save_image_loop.simps)
  apply (simp add: path_exists_def example_suffixed)
  apply (subst save_image_loop.simps)
  apply (simp add: path_exists_def)
  done

lemma example_splitext: "splitext ''house.jpg'' = (''house'', ''.jpg'')"
  by code_simp

lemma example_store_1: "save_image example_env (Some example_photo) (uploads example_state)
       = (Some ''house.jpg'', [(''plot.jpg'', ''JPEG-BYTES''), (''house.jpg'', ''PHOTO-1'')])"
  by (simp add: save_image_def example_photo_def example_env_def example_state_def
      example_strip example_splitext example_loop_1 Let_def)

lemma example_store_2: "save_image example_env (Some example_photo_2)
         [(''plot.jpg'', ''JPEG-BYTES''), (''house.jpg'', ''PHOTO-1'')]
       = (Some ''house_1.jpg'',
          [(''plot.jpg'', ''JPEG-BYTES''), (''house.jpg'', ''PHOTO-1''),
           (''house_1.jpg'', ''PHOTO-2'')])"
  by (simp add: save_image_def example_photo_2_def example_env_def
      example_strip example_splitext example_loop_2 Let_def)

section \<open>Claims about the media store\<close>

text \<open>
  C7. Two uploads are stored one after the other, both with a file name that is not
  blank and with the same sanitized name, which \<open>splitext\<close> splits into \<open>base\<close> and
  \<open>ext\<close>. Then both calls return a name, the two names differ, neither was taken when it
  was chosen, and after both stores each name holds the content of its own upload while
  every other name holds what it held before. The first name is the sanitized name
  itself when that was free. The second is \<open>base\<close>, an underscore, a number \<open>k\<close> from 1
  on and \<open>ext\<close>, where every smaller number from 1 on gives a name that was taken.
\<close>

theorem save_image_twice:
  assumes "filename f1 \<noteq> []" and "py_strip (filename f1) \<noteq> []"
      and "filename f2 \<noteq> []" and "py_strip (filename f2) \<noteq> []"
      and "secure_filename E (filename f1) = name"
      and "secure_filename E (filename f2) = name"
      and "splitext name = (base, ext)"
      and "save_image E (Some f1) fs = (r1, fs1)"
      and "save_image E (Some f2) fs1 = (r2, fs2)"
  shows "\<exists>n1 n2 k. r1 = Some n1 \<and> r2 = Some n2 \<and> n1 \<noteq> n2
          \<and> \<not> path_exists fs n1 \<and> \<not> path_exists fs1 n2
          \<and> map_of fs1 n1 = Some (content f1)
          \<and> map_of fs2 n2 = Some (content f2)
          \<and> map_of fs2 n1 = Some (content f1)
          \<and> (\<forall>m. m \<noteq> n1 \<and> m \<noteq> n2 \<longrightarrow> map_of fs2 m = map_of fs m)
          \<and> (\<not> path_exists fs name \<longrightarrow> n1 = name)
          \<and> base @ ext = name
          \<and> 1 \<le> k \<and> n2 = base @ ''_'' @ str_nat k @ ext
          \<and> (\<forall>j. 1 \<le> j \<and> j < k \<longrightarrow> path_exists fs1 (base @ ''_'' @ str_nat j @ ext))"
proof -
  let ?n1 = "save_image_loop fs base ext name 1"
  let ?n2 = "save_image_loop fs1 base ext name 1"
  have s1: "r1 = Some ?n1" "fs1 = AList.update ?n1 (content f1) fs"
    using save_image_stored[OF assms(1,2), of E base ext fs] assms(5,7,8) by simp_all
  have s2: "r2 = Some ?n2" "fs2 = AList.update ?n2 (content f2) fs1"
    using save_image_stored[OF assms(3,4), of E base ext fs1] assms(6,7,9) by simp_all
  note l1 = save_image_loop_result[of fs base ext name 1]
  note l2 = save_image_loop_result[of fs1 base ext name 1]
  have new1: "\<not> path_exists fs ?n1" using l1 by blast
  have new2: "\<not> path_exists fs1 ?n2" using l2 by blast
  have in1: "path_exists fs1 ?n1" unfolding s1(2) by (simp add: path_exists_update)
  have first: "\<not> path_exists fs name \<longrightarrow> ?n1 = name"
  proof
    assume "\<not> path_exists fs name"
    with l1[THEN conjunct2] show "?n1 = name" by (simp only: if_False)
  qed
  have taken: "path_exists fs1 name"
  proof (cases "path_exists fs name")
    case True
    then show ?thesis unfolding s1(2) by (simp add: path_exists_update)
  next
    case False
    with first in1 show ?thesis by simp
  qed
  with l2[THEN conjunct2]
  have "\<exists>k\<ge>1. ?n2 = suffixed base ext k
          \<and> (\<forall>j. 1 \<le> j \<and> j < k \<longrightarrow> path_exists fs1 (suffixed base ext j))"
    by (simp only: if_True)
  then obtain k where k: "1 \<le> k" "?n2 = suffixed base ext k"
     "\<forall>j. 1 \<le> j \<and> j < k \<longrightarrow> path_exists fs1 (suffixed base ext j)" by blast
  have ne: "?n1 \<noteq> ?n2" using in1 new2 by auto
  have m1: "map_of fs1 ?n1 = Some (content f1)"
    unfolding s1(2) by (simp add: update_conv')
  have m2: "map_of fs2 ?n2 = Some (content f2)"
    unfolding s2(2) by (simp add: update_conv')
  have m3: "map_of fs2 ?n1 = Some (content f1)"
    unfolding s2(2) using ne m1 by (simp add: update_conv')
  have m4: "\<forall>m. m \<noteq> ?n1 \<and> m \<noteq> ?n2 \<longrightarrow> map_of fs2 m = map_of fs m"
    unfolding s2(2) s1(2) by (simp add: update_conv')
  have be: "base @ ext = name" using assms(7) by (rule splitext_append)
  have "r1 = Some ?n1 \<and> r2 = Some ?n2 \<and> ?n1 \<noteq> ?n2
          \<and> \<not> path_exists fs ?n1 \<and> \<not> path_exists fs1 ?n2
          \<and> map_of fs1 ?n1 = Some (content f1)
          \<and> map_of fs2 ?n2 = Some (content f2)
          \<and> map_of fs2 ?n1 = Some (content f1)
          \<and> (\<forall>m. m \<noteq> ?n1 \<and> m \<noteq> ?n2 \<longrightarrow> map_of fs2 m = map_of fs m)
          \<and> (\<not> path_exists fs name \<longrightarrow> ?n1 = name)
          \<and> base @ ext = name
          \<and> 1 \<le> k \<and> ?n2 = base @ ''_'' @ str_nat k @ ext
          \<and> (\<forall>j. 1 \<le> j \<and> j < k \<longrightarrow> path_exists fs1 (base @ ''_'' @ str_nat j @ ext))"
    using s1(1) s2(1) ne new1 new2 m1 m2 m3 m4 first be k
    unfolding suffixed_def by (intro conjI) assumption+
  then show ?thesis by blast
qed

text \<open>
  A witness for C7: two uploads called \<open>house.jpg\<close> into the example folder are stored
  as \<open>house.jpg\<close> and \<open>house_1.jpg\<close>.
\<close>

theorem save_image_twice_witness:
  "filename example_photo \<noteq> [] \<and> py_strip (filename example_photo) \<noteq> []
   \<and> filename example_photo_2 \<noteq> [] \<and> py_strip (filename example_photo_2) \<noteq> []
   \<and> secure_filename example_env (filename example_photo) = ''house.jpg''
   \<and> secure_filename example_env (filename example_photo_2) = ''house.jpg''
   \<and> splitext ''house.jpg'' = (''house'', ''.jpg'')
   \<and> save_image example_env (Some example_photo) (uploads example_state)
       = (Some ''house.jpg'', [(''plot.jpg'', ''JPEG-BYTES''), (''house.jpg'', ''PHOTO-1'')])
   \<and> save_image example_env (Some example_photo_2)
         [(''plot.jpg'', ''JPEG-BYTES''), (''house.jpg'', ''PHOTO-1'')]
       = (Some ''house_1.jpg'',
          [(''plot.jpg'', ''JPEG-BYTES''), (''house.jpg'', ''PHOTO-1''),
           (''house_1.jpg'', ''PHOTO-2'')])
   \<and> ''house.jpg'' \<noteq> ''house_1.jpg''"
proof -
  have h1: "filename example_photo \<noteq> []" by (simp add: example_photo_def)
  have h2: "py_strip (filename example_photo) \<noteq> []"
    by (simp add: example_photo_def example_strip)
  have h3: "filename example_photo_2 \<noteq> []" by (simp add: example_photo_2_def)
  have h4: "py_strip (filename example_photo_2) \<noteq> []"
    by (simp add: example_photo_2_def example_strip)
  have h5: "secure_filename example_env (filename example_photo) = ''house.jpg''"
    by (simp add: example_env_def example_photo_def)
  have h6: "secure_filename example_env (filename example_photo_2) = ''house.jpg''"
    by (simp add: example_env_def example_photo_2_def)
  note h7 = example_splitext
  note h8 = example_store_1
  note h9 = example_store_2
  have ne: "''house.jpg'' \<noteq> ''house_1.jpg''"
    using save_image_twice[OF h1 h2 h3 h4 h5 h6 h7 h8 h9]
  proof (elim exE conjE)
    fix n1 n2 :: string
    assume "Some ''house.jpg'' = Some n1" and "Some ''house_1.jpg'' = Some n2" and "n1 \<noteq> n2"
    then show ?thesis by blast
  qed
  from h1 h2 h3 h4 h5 h6 h7 h8 h9 ne show ?thesis by (intro conjI)
qed

end
